theory Spec2Isabelle
  imports Complex_Main "HOL-Library.Sublist"
begin

section \<open>JavaScript strings\<close>

text \<open>
  A JavaScript string is a sequence of UTF-16 code units, and a regular expression
  without the \<open>u\<close> flag works on code units. A string is modelled as the list of
  its code units, each a natural number (below 65536 in every real string; no
  theorem below needs the bound). \<open>ascii\<close> embeds an ASCII literal of the source.
\<close>

type_synonym jsstring = "nat list"

definition ascii :: "string \<Rightarrow> jsstring" where
  "ascii s = map of_char s"

text \<open>The code units of the double quote, of the two angle brackets and of the line feed.\<close>

definition dquote :: nat where "dquote = 0x22"
definition lt_sign :: nat where "lt_sign = 0x3C"
definition gt_sign :: nat where "gt_sign = 0x3E"
definition newline :: nat where "newline = 0x0A"

section \<open>makeWordsClickable: the tokenizer\<close>

text \<open>
  The list \<open>particles\<close> of \<open>makeWordsClickable\<close>, in source order, as code units:
  U+306F, U+304C, U+3092, U+306B, U+3067, U+3068, U+3082, U+306E, U+304B U+3089, ...
\<close>

definition particles :: "jsstring list" where
  "particles =
    [[0x306F], [0x304C], [0x3092], [0x306B], [0x3067], [0x3068], [0x3082], [0x306E],
     [0x304B, 0x3089], [0x307E, 0x3067], [0x3088, 0x308A], [0x3078],
     [0x3084], [0x304B], [0x3088], [0x306D], [0x308F], [0x3055], [0x305E], [0x305C],
     [0x306A], [0x3060], [0x3067, 0x3042, 0x308B],
     [0x3067, 0x3059], [0x307E, 0x3059], [0x3060, 0x3063], [0x3067, 0x3042, 0x3063],
     [0x3068, 0x3044, 0x3046], [0x3068, 0x3044, 0x3063, 0x305F]]"

text \<open>
  The character class of \<open>meaningfulWordRegex\<close>: the ranges U+4E00-U+9FAF,
  U+3072-U+3096, U+30F0-U+30F7, U+30A1-U+30FA and the single U+30FC.
\<close>

definition in_class :: "nat \<Rightarrow> bool" where
  "in_class c \<longleftrightarrow>
     (0x4E00 \<le> c \<and> c \<le> 0x9FAF) \<or> (0x3072 \<le> c \<and> c \<le> 0x3096) \<or>
     (0x30F0 \<le> c \<and> c \<le> 0x30F7) \<or> (0x30A1 \<le> c \<and> c \<le> 0x30FA) \<or> c = 0x30FC"

text \<open>
  The loop \<open>while ((match = meaningfulWordRegex.exec(text)) !== null)\<close>: the global
  regular expression \<open>([class]{1,})\<close> finds, from \<open>lastIndex\<close> on, the leftmost code
  unit of the class, takes the longest run of class code units from there (the
  quantifier is greedy), and leaves \<open>lastIndex\<close> behind the run. \<open>exec_all\<close> is the
  list of the values of \<open>match[1]\<close>, in order.
\<close>

function exec_all :: "jsstring \<Rightarrow> jsstring list" where
  "exec_all t =
     (case dropWhile (\<lambda>c. \<not> in_class c) t of
        [] \<Rightarrow> []
      | c # r \<Rightarrow> (c # takeWhile in_class r) # exec_all (dropWhile in_class r))"
  by pat_completeness auto
termination
proof (relation "measure length")
  show "wf (measure length)" by simp
next
  fix t :: jsstring and c r
  assume a: "dropWhile (\<lambda>c. \<not> in_class c) t = c # r"
  have "length (dropWhile in_class r) \<le> length r"
    by (rule length_dropWhile_le)
  also have "length r < length (c # r)" by simp
  also have "length (c # r) \<le> length t"
    using a length_dropWhile_le [of "\<lambda>c. \<not> in_class c" t] by simp
  finally show "(dropWhile in_class r, t) \<in> measure length" by simp
qed

declare exec_all.simps [simp del]

text \<open>\<open>Set.prototype.add\<close>: a JavaScript Set keeps insertion order and no duplicate.\<close>

definition set_add :: "'a \<Rightarrow> 'a list \<Rightarrow> 'a list" where
  "set_add x xs = (if x \<in> set xs then xs else xs @ [x])"

text \<open>The body of the loop: \<open>!particles.includes(word) && word.length >= 1\<close>.\<close>

definition add_word :: "jsstring list \<Rightarrow> jsstring \<Rightarrow> jsstring list" where
  "add_word acc word =
     (if word \<notin> set particles \<and> length word \<ge> 1 then set_add word acc else acc)"

definition wordsToMakeClickable :: "jsstring \<Rightarrow> jsstring list" where
  "wordsToMakeClickable text = foldl add_word [] (exec_all text)"

text \<open>
  \<open>Array.from(set).sort((a, b) => b.length - a.length)\<close>: a stable sort, longest
  first.
\<close>

definition sortedWords :: "jsstring \<Rightarrow> jsstring list" where
  "sortedWords text = sort_key (\<lambda>w. - int (length w)) (wordsToMakeClickable text)"

section \<open>makeWordsClickable: the annotator\<close>

text \<open>
  The replacement string of the source is a template with the word interpolated
  twice: the opening tag up to the quote that opens \<open>data-word\<close>, the word, the
  rest of the opening tag, the word again, the closing tag. The words reaching it
  consist of code units of the class, so none contains the dollar sign that
  \<open>String.prototype.replace\<close> would expand, and \<open>escapeRegex\<close> leaves them as
  they are.
\<close>

definition open_tag :: jsstring where
  \<open>open_tag = ascii ''<span class="clickable-word" data-word="''\<close>

definition tag_rest :: jsstring where
  \<open>tag_rest = ascii ''" data-source="dynamic">''\<close>

definition close_tag :: jsstring where
  \<open>close_tag = ascii ''</span>''\<close>

definition span_tag :: "jsstring \<Rightarrow> jsstring" where
  "span_tag word = open_tag @ word @ tag_rest @ word @ close_tag"

text \<open>
  The first lookahead of the pattern, \<open>(?!<[^>]*>)\<close>, fails where a complete tag
  starts: a \<open><\<close> followed, anywhere later, by a \<open>>\<close>.
\<close>

definition tag_starts :: "jsstring \<Rightarrow> bool" where
  "tag_starts t = (case t of [] \<Rightarrow> False | c # r \<Rightarrow> c = lt_sign \<and> gt_sign \<in> set r)"

text \<open>
  The second lookahead, \<open>(?![^<]*>)\<close>, fails where the rest of the text reaches a
  \<open>>\<close> before any \<open><\<close>: the position is inside the angle brackets of a tag.
\<close>

definition inside_tag :: "jsstring \<Rightarrow> bool" where
  "inside_tag s \<longleftrightarrow> gt_sign \<in> set (takeWhile (\<lambda>c. c \<noteq> lt_sign) s)"

text \<open>The whole pattern at the start of \<open>t\<close>: lookahead, the literal word, lookahead.\<close>

definition match_at :: "jsstring \<Rightarrow> jsstring \<Rightarrow> bool" where
  "match_at word t \<longleftrightarrow>
     \<not> tag_starts t \<and> prefix word t \<and> \<not> inside_tag (drop (length word) t)"

text \<open>
  \<open>clickableText.replace(regex, ...)\<close> with the \<open>g\<close> flag: the matches are found
  from left to right in the text as it was before the call, each is replaced by the
  tag, and the search goes on behind the match (one code unit further when the
  match is empty).
\<close>

function replace_word :: "jsstring \<Rightarrow> jsstring \<Rightarrow> jsstring" where
  "replace_word word t =
     (if match_at word t then
        span_tag word @
          (if word = [] then (case t of [] \<Rightarrow> [] | c # r \<Rightarrow> c # replace_word word r)
           else replace_word word (drop (length word) t))
      else (case t of [] \<Rightarrow> [] | c # r \<Rightarrow> c # replace_word word r))"
  by pat_completeness auto
termination
  by (relation "measure (\<lambda>(word, t). length t)")
     (auto simp: match_at_def prefix_def)

declare replace_word.simps [simp del]

text \<open>\<open>sortedWords.forEach(word => ...)\<close>: one replacement pass for each word, in order.\<close>

definition wrapWords :: "jsstring list \<Rightarrow> jsstring \<Rightarrow> jsstring" where
  "wrapWords ws text = foldl (\<lambda>clickableText word. replace_word word clickableText) text ws"

text \<open>\<open>replace(/\n/g, "<br>")\<close>.\<close>

definition nl2br :: "jsstring \<Rightarrow> jsstring" where
  "nl2br t = concat (map (\<lambda>c. if c = newline then ascii ''<br>'' else [c]) t)"

definition makeWordsClickable :: "jsstring \<Rightarrow> jsstring" where
  "makeWordsClickable text = nl2br (wrapWords (sortedWords text) text)"

text \<open>
  Reading a markup string back: an interactive span starts wherever \<open>open_tag\<close>
  starts, and carries the word of its \<open>data-word\<close> attribute, up to the next quote.
  \<open>spans_of\<close> lists these words from left to right.
\<close>

fun spans_of :: "jsstring \<Rightarrow> jsstring list" where
  "spans_of [] = []"
| "spans_of (c # r) =
     (if prefix open_tag (c # r)
      then takeWhile (\<lambda>x. x \<noteq> dquote) (drop (length open_tag) (c # r)) # spans_of r
      else spans_of r)"

section \<open>getWordDefinition: the resolver and its cache\<close>

text \<open>
  The values \<open>JSON.parse\<close> can return. An object lists its properties in order,
  each key once.
\<close>

datatype jsval =
    JNull
  | JBool bool
  | JNum real
  | JStr jsstring
  | JArr "jsval list"
  | JObj "(jsstring \<times> jsval) list"

text \<open>What the \<open>try\<close> block of \<open>getWordDefinition\<close> can throw.\<close>

datatype exn =
    NetworkFailure
  | HttpError nat jsstring
  | SyntaxError
  | TypeError

text \<open>
  The lookup service is outside the program. One request is answered by a
  \<open>fetch_result\<close>, which says, in the order the \<open>try\<close> block asks: whether
  \<open>fetch\<close> rejects; the \<open>ok\<close>, \<open>status\<close> and \<open>statusText\<close> of the response;
  whether \<open>response.json()\<close> rejects; whether reading
  \<open>data.choices[0].message.content\<close> throws; and whether \<open>JSON.parse(content)\<close>
  throws or which value it returns.
\<close>

datatype parse_result = ParseThrows | ParseReturns jsval

datatype content_result = AccessThrows | Content parse_result

datatype json_result = JsonRejects | Data content_result

record response =
  ok :: bool
  status :: nat
  statusText :: jsstring
  json :: json_result

datatype fetch_result = FetchRejects | FetchResolves response

text \<open>
  The \<open>try\<close> block up to \<open>JSON.parse\<close>: \<open>Inl\<close> is the exception that reaches the
  \<open>catch\<close>, \<open>Inr\<close> is \<open>parsedContent\<close>.
\<close>

definition try_block :: "fetch_result \<Rightarrow> exn + jsval" where
  "try_block net =
     (case net of
        FetchRejects \<Rightarrow> Inl NetworkFailure
      | FetchResolves response \<Rightarrow>
          if \<not> ok response then Inl (HttpError (status response) (statusText response))
          else (case json response of
                  JsonRejects \<Rightarrow> Inl SyntaxError
                | Data AccessThrows \<Rightarrow> Inl TypeError
                | Data (Content ParseThrows) \<Rightarrow> Inl SyntaxError
                | Data (Content (ParseReturns parsedContent)) \<Rightarrow> Inr parsedContent))"

text \<open>
  The lookups that the code treats as failed are those whose \<open>try\<close> block throws:
  \<open>fetch\<close> rejects (a network error), the status is not ok, the body is not JSON,
  the content cannot be read from the body, or the content is not JSON text.
\<close>

definition lookup_throws :: "fetch_result \<Rightarrow> bool" where
  "lookup_throws net =
     (case net of
        FetchRejects \<Rightarrow> True
      | FetchResolves response \<Rightarrow>
          \<not> ok response \<or> json response = JsonRejects \<or> json response = Data AccessThrows \<or>
          json response = Data (Content ParseThrows))"

text \<open>
  The fields of the application object that the resolver and the popup use.
  \<open>requests\<close> is not a field of the source: it records, in order, the word and the
  key of every call of \<open>fetch\<close> made by \<open>getWordDefinition\<close>, so that "no lookup
  is invoked" can be stated. \<open>alerts\<close> records the calls of \<open>alert\<close>.
\<close>

datatype popup_content =
    Blank
  | LookingUp
  | ReadingMeaning "jsval option" "jsval option"

record app =
  fallbackDefinitions :: "jsstring \<rightharpoonup> jsval"
  requests :: "(jsstring \<times> jsstring) list"
  popupWord :: jsstring
  popupMeaning :: popup_content
  popupHidden :: bool
  currentWord :: "jsstring option"
  alerts :: "jsstring list"

text \<open>The object \<open>{ reading: "?", meaning: "Definition unavailable" }\<close> of the \<open>catch\<close>.\<close>

definition unavailable :: jsval where
  "unavailable =
     JObj [(ascii ''reading'', JStr (ascii ''?'')),
           (ascii ''meaning'', JStr (ascii ''Definition unavailable''))]"

text \<open>
  \<open>getWordDefinition(word, apiKey)\<close>. The result is the settlement of the promise
  (\<open>Inl\<close> a rejection, \<open>Inr\<close> the value) and the state after the call.
\<close>

definition getWordDefinition ::
  "jsstring \<Rightarrow> jsstring \<Rightarrow> fetch_result \<Rightarrow> app \<Rightarrow> (exn + jsval) \<times> app" where
  "getWordDefinition word apiKey net s =
     (case fallbackDefinitions s word of
        Some cached \<Rightarrow> (Inr cached, s)
      | None \<Rightarrow>
          (let s1 = s\<lparr>requests := requests s @ [(word, apiKey)]\<rparr> in
           case try_block net of
             Inr parsedContent \<Rightarrow>
               (Inr parsedContent,
                s1\<lparr>fallbackDefinitions := (fallbackDefinitions s1)(word \<mapsto> parsedContent)\<rparr>)
           | Inl error \<Rightarrow> (Inr unavailable, s1)))"

section \<open>showWordPopup\<close>


text \<open>
  \<open>definition.reading\<close> and \<open>definition.meaning\<close> on a truthy value: the property
  of an object, \<open>undefined\<close> (\<open>None\<close>) when it has none or when the value is not an
  object.
\<close>

fun field :: "jsval \<Rightarrow> jsstring \<Rightarrow> jsval option" where
  "field (JObj props) name = map_of props name"
| "field _ name = None"





section \<open>The lookup as the specification words it\<close>



section \<open>positionPopup\<close>

text \<open>
  Pixel quantities are JavaScript numbers, that is doubles; they are modelled as
  real numbers. The callback halves, adds, subtracts, compares and takes a maximum.
  On whole numbers of pixels, of a size any screen has (\<open>whole_pixel\<close>), every
  value it computes is a whole or a half number far below \<open>2 ^ 52\<close>, the doubles
  compute it exactly, and the model and the code agree. Elsewhere the code rounds,
  and only a statement that rests on the comparisons alone carries over.
\<close>

definition whole_pixel :: "real \<Rightarrow> bool" where
  "whole_pixel v \<longleftrightarrow> of_int \<lfloor>v\<rfloor> = v \<and> \<bar>v\<bar> \<le> 2 ^ 31"

datatype pointer_event =
    TouchEnd real real
  | Click real real

text \<open>
  \<open>touchX\<close> and \<open>touchY\<close>: \<open>pageX - scrollX\<close> and \<open>pageY - scrollY\<close> of the first
  changed touch of a \<open>touchend\<close>, \<open>clientX\<close> and \<open>clientY\<close> otherwise.
\<close>

fun touch_point :: "pointer_event \<Rightarrow> real \<Rightarrow> real \<Rightarrow> real \<times> real" where
  "touch_point (TouchEnd pageX pageY) scrollX scrollY = (pageX - scrollX, pageY - scrollY)"
| "touch_point (Click clientX clientY) scrollX scrollY = (clientX, clientY)"

record position =
  left :: real
  top :: real

text \<open>
  The callback of \<open>requestAnimationFrame\<close>: each \<open>if\<close> of the source updates
  \<open>left\<close> or \<open>top\<close> in turn.
\<close>

definition place_popup :: "real \<Rightarrow> real \<Rightarrow> real \<Rightarrow> real \<Rightarrow> real \<Rightarrow> real \<Rightarrow> position" where
  "place_popup touchX touchY popupWidth popupHeight viewportWidth viewportHeight =
     (let left0 = touchX - popupWidth / 2;
          top0 = touchY - popupHeight - 20;
          left1 = (if left0 + popupWidth > viewportWidth - 20
                   then viewportWidth - popupWidth - 20 else left0);
          left2 = (if left1 < 20 then 20 else left1);
          top1 = (if top0 < 20 then touchY + 20 else top0);
          top2 = (if top1 + popupHeight > viewportHeight - 20
                  then max 20 ((viewportHeight - popupHeight) / 2) else top1)
      in \<lparr>left = left2, top = top2\<rparr>)"

definition positionPopup ::
  "pointer_event \<Rightarrow> real \<Rightarrow> real \<Rightarrow> real \<Rightarrow> real \<Rightarrow> real \<Rightarrow> real \<Rightarrow> position" where
  "positionPopup event scrollX scrollY popupWidth popupHeight viewportWidth viewportHeight =
     (case touch_point event scrollX scrollY of
        (touchX, touchY) \<Rightarrow>
          place_popup touchX touchY popupWidth popupHeight viewportWidth viewportHeight)"

section \<open>The placement as the specification words it\<close>

text \<open>
  The specification describes the placement as a fallback over three tiers, with a
  fixed margin. \<open>place_spec\<close> follows its words, not the code: centre on the trigger,
  move the right edge inside the viewport less the margin, keep the left edge at
  the margin or more; take the tier above the trigger when its top is at the
  margin or more; otherwise flip to the tier below the trigger; and when the bottom
  of that tier below passes the viewport height less the margin, centre.
\<close>

definition margin :: real where
  "margin = 20"

datatype tier = Above | Below | Centered

fun tier_top :: "tier \<Rightarrow> real \<Rightarrow> real \<Rightarrow> real \<Rightarrow> real" where
  "tier_top Above y h vh = y - h - margin"
| "tier_top Below y h vh = y + margin"
| "tier_top Centered y h vh = max margin ((vh - h) / 2)"

definition fallback :: "real \<Rightarrow> real \<Rightarrow> real \<Rightarrow> tier" where
  "fallback y h vh =
     (if tier_top Above y h vh < margin
      then (if tier_top Below y h vh + h > vh - margin then Centered else Below)
      else Above)"

definition place_spec :: "real \<Rightarrow> real \<Rightarrow> real \<Rightarrow> real \<Rightarrow> real \<Rightarrow> real \<Rightarrow> position" where
  "place_spec x y w h vw vh =
     \<lparr>left = max margin (min (x - w / 2) (vw - margin - w)),
      top = tier_top (fallback y h vh) y h vh\<rparr>"

section \<open>Concrete inputs\<close>

text \<open>
  The sentence U+732B U+304C U+597D U+304D U+3067 U+3059 U+3002 ("I like cats."),
  the words U+6771 U+4EAC (Tokyo) and U+4EAC, the state of a fresh application
  object (an empty cache, nothing shown), a response with status 429, a response
  whose content parses to a definition of U+732B, and a response with status 200
  whose content is the JSON text \<open>null\<close>.
\<close>

definition cat_sentence :: jsstring where
  "cat_sentence = [0x732B, 0x304C, 0x597D, 0x304D, 0x3067, 0x3059, 0x3002]"

definition tokyo :: jsstring where
  "tokyo = [0x6771, 0x4EAC]"

definition kyo :: jsstring where
  "kyo = [0x4EAC]"

definition fresh_app :: app where
  "fresh_app =
     \<lparr>fallbackDefinitions = Map.empty, requests = [], popupWord = [], popupMeaning = Blank,
      popupHidden = True, currentWord = None, alerts = []\<rparr>"

definition too_many_requests :: response where
  "too_many_requests =
     \<lparr>ok = False, status = 429, statusText = ascii ''Too Many Requests'', json = JsonRejects\<rparr>"

definition cat_definition :: jsval where
  "cat_definition =
     JObj [(ascii ''reading'', JStr [0x306D, 0x3053]), (ascii ''meaning'', JStr (ascii ''cat''))]"

definition cat_response :: response where
  "cat_response =
     \<lparr>ok = True, status = 200, statusText = ascii ''OK'',
      json = Data (Content (ParseReturns cat_definition))\<rparr>"

definition null_response :: response where
  "null_response =
     \<lparr>ok = True, status = 200, statusText = ascii ''OK'',
      json = Data (Content (ParseReturns JNull))\<rparr>"

section \<open>Evaluation lemmas\<close>

lemma open_tag_units:
  "open_tag =
     [60, 115, 112, 97, 110, 32, 99, 108, 97, 115, 115, 61, 34, 99, 108, 105,
      99, 107, 97, 98, 108, 101, 45, 119, 111, 114, 100, 34, 32, 100, 97, 116,
      97, 45, 119, 111, 114, 100, 61, 34]"
  by (simp add: open_tag_def ascii_def)

lemma tag_rest_units:
  "tag_rest =
     [34, 32, 100, 97, 116, 97, 45, 115, 111, 117, 114, 99, 101, 61, 34, 100, 121, 110,
      97, 109, 105, 99, 34, 62]"
  by (simp add: tag_rest_def ascii_def)

lemma close_tag_units: "close_tag = [60, 47, 115, 112, 97, 110, 62]"
  by (simp add: close_tag_def ascii_def)

lemmas tag_units = span_tag_def open_tag_units tag_rest_units close_tag_units

lemmas scan_simps = replace_word.simps match_at_def tag_starts_def inside_tag_def
  lt_sign_def gt_sign_def dquote_def newline_def

lemmas token_simps = sortedWords_def wordsToMakeClickable_def exec_all.simps
  in_class_def add_word_def set_add_def particles_def

section \<open>The tokenizer\<close>

lemma exec_all_run:
  "w \<in> set (exec_all t) \<Longrightarrow> w \<noteq> [] \<and> sublist w t \<and> (\<forall>c\<in>set w. in_class c)"
proof (induction t rule: exec_all.induct)
  case (1 t)
  show ?case
  proof (cases "dropWhile (\<lambda>c. \<not> in_class c) t")
    case Nil
    with "1.prems" show ?thesis by (simp add: exec_all.simps [of t])
  next
    case (Cons c r)
    have t_eq: "t = takeWhile (\<lambda>c. \<not> in_class c) t @ c # r"
      using Cons takeWhile_dropWhile_id [of "\<lambda>c. \<not> in_class c" t] by simp
    have c_in: "in_class c"
      using Cons hd_dropWhile [of "\<lambda>c. \<not> in_class c" t] by force
    have r_eq: "r = takeWhile in_class r @ dropWhile in_class r" by simp
    from "1.prems" Cons
    consider "w = c # takeWhile in_class r" | "w \<in> set (exec_all (dropWhile in_class r))"
      by (auto simp: exec_all.simps [of t])
    then show ?thesis
    proof cases
      case 1
      have "t = takeWhile (\<lambda>c. \<not> in_class c) t @ w @ dropWhile in_class r"
        using t_eq r_eq 1 by (metis append_Cons)
      then have "sublist w t" unfolding sublist_def by blast
      moreover have "\<forall>x\<in>set w. in_class x"
        using 1 c_in by (auto dest: set_takeWhileD)
      ultimately show ?thesis using 1 by simp
    next
      case 2
      with "1.IH" [OF Cons]
      have ih: "w \<noteq> [] \<and> sublist w (dropWhile in_class r) \<and> (\<forall>c\<in>set w. in_class c)"
        by simp
      have "t = (takeWhile (\<lambda>c. \<not> in_class c) t @ c # takeWhile in_class r) @
                dropWhile in_class r"
        using t_eq r_eq by (metis append_Cons append.assoc)
      then have "suffix (dropWhile in_class r) t"
        unfolding suffix_def by blast
      then have "sublist (dropWhile in_class r) t" by (rule suffix_imp_sublist)
      with ih show ?thesis using sublist_order.order_trans by blast
    qed
  qed
qed

lemma set_foldl_add_word:
  "set (foldl add_word acc ws) = set acc \<union> {w \<in> set ws. w \<notin> set particles \<and> w \<noteq> []}"
  by (induction ws arbitrary: acc) (auto simp: add_word_def set_add_def Suc_le_eq)

lemma set_wordsToMakeClickable:
  "set (wordsToMakeClickable t) = {w \<in> set (exec_all t). w \<notin> set particles}"
  using exec_all_run [of _ t] by (auto simp: wordsToMakeClickable_def set_foldl_add_word)

lemma exec_all_none: "\<forall>c\<in>set t. \<not> in_class c \<Longrightarrow> exec_all t = []"
proof -
  assume "\<forall>c\<in>set t. \<not> in_class c"
  then have d: "dropWhile (\<lambda>c. \<not> in_class c) t = []"
    by (simp add: dropWhile_eq_Nil_conv)
  show ?thesis unfolding exec_all.simps [of t] d by simp
qed




text \<open>
  C3. For every input text, every word the tokenizer keeps (every element of the
  set \<open>wordsToMakeClickable\<close>) is non-empty, is a contiguous part of the text, and
  is no member of the particle list. It moreover consists of code units of the
  class only.
\<close>

theorem tokenizer_spans:
  "\<forall>w \<in> set (wordsToMakeClickable t).
     w \<noteq> [] \<and> sublist w t \<and> w \<notin> set particles \<and> list_all in_class w"
proof
  fix w
  assume "w \<in> set (wordsToMakeClickable t)"
  then have e: "w \<in> set (exec_all t)" and p: "w \<notin> set particles"
    by (simp_all add: set_wordsToMakeClickable)
  from exec_all_run [OF e] p
  show "w \<noteq> [] \<and> sublist w t \<and> w \<notin> set particles \<and> list_all in_class w"
    by (simp add: list_all_iff)
qed

theorem tokenizer_spans_witness:
  "[0x597D] \<in> set (wordsToMakeClickable cat_sentence) \<and> [0x597D] \<noteq> ([] :: jsstring) \<and>
   sublist [0x597D] cat_sentence \<and> [0x597D] \<notin> set particles \<and> list_all in_class [0x597D]"
proof -
  have m: "[0x597D] \<in> set (wordsToMakeClickable cat_sentence)"
    by (simp add: cat_sentence_def token_simps)
  with tokenizer_spans [of cat_sentence] show ?thesis by blast
qed

text \<open>
  C10. The hiragana range of the class starts at U+3072, so no code unit from U+3041
  up to U+3071 is in the class; and for every text without a code unit of the
  class, no word is found and \<open>makeWordsClickable\<close> returns the text with each line
  feed replaced by the line-break tag, and nothing else changed.
\<close>

theorem outside_class_unchanged:
  "in_class 0x3072 \<and> (0x3041 \<le> c \<and> c < 0x3072 \<longrightarrow> \<not> in_class c) \<and>
   ((\<forall>c\<in>set t. \<not> in_class c) \<longrightarrow>
      sortedWords t = [] \<and> makeWordsClickable t = nl2br t)"
  by (simp add: exec_all_none makeWordsClickable_def sortedWords_def
      wordsToMakeClickable_def wrapWords_def in_class_def)

theorem outside_class_unchanged_witness:
  "\<not> in_class 0x304C \<and>
   sortedWords [0x3042, 0x304B, 0x0A, 0x304C, 0x304D, 0x3067, 0x3059] = [] \<and>
   makeWordsClickable [0x3042, 0x304B, 0x0A, 0x304C, 0x304D, 0x3067, 0x3059] =
     [0x3042, 0x304B] @ ascii ''<br>'' @ [0x304C, 0x304D, 0x3067, 0x3059]"
proof -
  have h: "\<forall>c\<in>set [0x3042, 0x304B, 0x0A, 0x304C, 0x304D, 0x3067, 0x3059 :: nat]. \<not> in_class c"
    by (simp add: in_class_def)
  have n: "nl2br [0x3042, 0x304B, 0x0A, 0x304C, 0x304D, 0x3067, 0x3059] =
     [0x3042, 0x304B] @ ascii ''<br>'' @ [0x304C, 0x304D, 0x3067, 0x3059]"
    by (simp add: nl2br_def newline_def)
  from outside_class_unchanged [of "0x304C" "[0x3042, 0x304B, 0x0A, 0x304C, 0x304D, 0x3067, 0x3059]"] h n
  show ?thesis by simp
qed

section \<open>The annotator\<close>



text \<open>
  C4, evaluated. With the candidates U+6771 U+4EAC and U+4EAC, longest first, on the
  text U+6771 U+4EAC U+90FD, the second pass wraps the U+4EAC inside the content of
  the first span: the lookahead only excludes the occurrence inside the angle
  brackets of the tag. The output holds two interactive spans, one nested in the
  other. The same happens in the whole pipeline on the text U+6771 U+4EAC U+3001
  U+4EAC, whose two runs are these two candidates.
\<close>

theorem tokyo_nested_wrap:
  "sort_key (\<lambda>w. - int (length w)) [kyo, tokyo] = [tokyo, kyo] \<and>
   wrapWords [tokyo, kyo] (tokyo @ [0x90FD]) =
     open_tag @ tokyo @ tag_rest @ [0x6771] @ span_tag kyo @ close_tag @ [0x90FD] \<and>
   spans_of (wrapWords [tokyo, kyo] (tokyo @ [0x90FD])) = [tokyo, kyo] \<and>
   sortedWords (tokyo @ [0x3001] @ kyo) = [tokyo, kyo] \<and>
   makeWordsClickable (tokyo @ [0x3001] @ kyo) =
     open_tag @ tokyo @ tag_rest @ [0x6771] @ span_tag kyo @ close_tag @ [0x3001] @ span_tag kyo"
proof -
  have s: "sort_key (\<lambda>w. - int (length w)) [kyo, tokyo] = [tokyo, kyo]"
    by (simp add: tokyo_def kyo_def)
  have w: "wrapWords [tokyo, kyo] (tokyo @ [0x90FD]) =
     open_tag @ tokyo @ tag_rest @ [0x6771] @ span_tag kyo @ close_tag @ [0x90FD]"
    by (simp add: wrapWords_def tokyo_def kyo_def tag_units scan_simps)
  have p: "spans_of (open_tag @ tokyo @ tag_rest @ [0x6771] @ span_tag kyo @ close_tag @ [0x90FD])
     = [tokyo, kyo]"
    by (simp add: tokyo_def kyo_def tag_units dquote_def)
  have t: "sortedWords (tokyo @ [0x3001] @ kyo) = [tokyo, kyo]"
    by (simp add: tokyo_def kyo_def token_simps)
  have m: "makeWordsClickable (tokyo @ [0x3001] @ kyo) =
     open_tag @ tokyo @ tag_rest @ [0x6771] @ span_tag kyo @ close_tag @ [0x3001] @ span_tag kyo"
    unfolding makeWordsClickable_def t
    by (simp add: wrapWords_def nl2br_def tokyo_def kyo_def tag_units scan_simps)
  from s w p t m show ?thesis by simp
qed

text \<open>
  C5, evaluated. On the one-ideograph text U+732B the output holds one interactive
  tag; \<open>makeWordsClickable\<close> applied to that output wraps the content of the span
  again, and the result holds two.
\<close>

theorem rewrap_doubles_tags:
  "makeWordsClickable [0x732B] = span_tag [0x732B] \<and>
   makeWordsClickable (makeWordsClickable [0x732B]) =
     open_tag @ [0x732B] @ tag_rest @ span_tag [0x732B] @ close_tag \<and>
   length (spans_of (makeWordsClickable [0x732B])) = 1 \<and>
   length (spans_of (makeWordsClickable (makeWordsClickable [0x732B]))) = 2"
proof -
  have w1: "sortedWords [0x732B] = [[0x732B]]"
    by (simp add: token_simps)
  have m1: "makeWordsClickable [0x732B] = span_tag [0x732B]"
    unfolding makeWordsClickable_def w1
    by (simp add: wrapWords_def nl2br_def tag_units scan_simps)
  have w2: "sortedWords (span_tag [0x732B]) = [[0x732B]]"
    by (simp add: tag_units token_simps)
  have m2: "makeWordsClickable (span_tag [0x732B]) =
     open_tag @ [0x732B] @ tag_rest @ span_tag [0x732B] @ close_tag"
    unfolding makeWordsClickable_def w2
    by (simp add: wrapWords_def nl2br_def tag_units scan_simps)
  have c1: "length (spans_of (span_tag [0x732B])) = 1"
    by (simp add: tag_units dquote_def)
  have c2: "length (spans_of (open_tag @ [0x732B] @ tag_rest @ span_tag [0x732B] @ close_tag)) = 2"
    by (simp add: tag_units dquote_def)
  from m1 m2 c1 c2 show ?thesis by simp
qed

section \<open>The resolver\<close>

lemma lookup_throws_iff: "lookup_throws net \<longleftrightarrow> isl (try_block net)"
proof (cases net)
  case FetchRejects
  then show ?thesis by (simp add: lookup_throws_def try_block_def)
next
  case (FetchResolves response)
  show ?thesis
  proof (cases "json response")
    case JsonRejects
    with FetchResolves show ?thesis by (simp add: lookup_throws_def try_block_def)
  next
    case (Data d)
    show ?thesis
    proof (cases d)
      case AccessThrows
      with Data FetchResolves show ?thesis by (simp add: lookup_throws_def try_block_def)
    next
      case (Content p)
      with Data FetchResolves show ?thesis
        by (cases p) (simp_all add: lookup_throws_def try_block_def)
    qed
  qed
qed

lemma getWordDefinition_failure:
  assumes "lookup_throws net" and "fallbackDefinitions s word = None"
  shows "getWordDefinition word apiKey net s =
           (Inr unavailable, s\<lparr>requests := requests s @ [(word, apiKey)]\<rparr>)"
proof -
  from assms(1) obtain e where "try_block net = Inl e"
    unfolding lookup_throws_iff by (cases "try_block net") simp_all
  with assms(2) show ?thesis
    by (simp add: getWordDefinition_def)
qed

lemma getWordDefinition_parsed:
  assumes "\<not> lookup_throws net" and "fallbackDefinitions s word = None"
  shows "\<exists>parsed. try_block net = Inr parsed \<and>
           getWordDefinition word apiKey net s =
             (Inr parsed,
              s\<lparr>requests := requests s @ [(word, apiKey)],
                fallbackDefinitions := (fallbackDefinitions s)(word \<mapsto> parsed)\<rparr>)"
proof -
  from assms(1) obtain parsed where "try_block net = Inr parsed"
    unfolding lookup_throws_iff by (cases "try_block net") simp_all
  with assms(2) show ?thesis
    by (simp add: getWordDefinition_def)
qed

lemma getWordDefinition_fulfils: "\<not> isl (fst (getWordDefinition word apiKey net s))"
  by (simp add: getWordDefinition_def Let_def split: option.split sum.split)

lemma unavailable_fields:
  "field unavailable (ascii ''reading'') = Some (JStr (ascii ''?'')) \<and>
   field unavailable (ascii ''meaning'') = Some (JStr (ascii ''Definition unavailable''))"
  by (simp add: unavailable_def ascii_def)

text \<open>
  C2, as the code has it. \<open>getWordDefinition\<close> never rejects. When the cache holds
  no entry for the word and the lookup throws (a network error, a non-ok status, a
  body that is not JSON, a body without the content, a content that is not JSON
  text), it returns the object with the reading \<open>?\<close> and the meaning
  \<open>Definition unavailable\<close>, after one request, and leaves the cache as it was: this
  object is not stored. When the lookup does not throw, the content is JSON text of
  some value, a Definition or not; that value is returned and stored under the
  word, and the object \<open>unavailable\<close> is not used.
\<close>

theorem failed_lookup_returns_unavailable:
  "\<not> isl (fst (getWordDefinition word apiKey net s)) \<and>
   (lookup_throws net \<and> fallbackDefinitions s word = None \<longrightarrow>
      getWordDefinition word apiKey net s =
        (Inr unavailable, s\<lparr>requests := requests s @ [(word, apiKey)]\<rparr>) \<and>
      fallbackDefinitions (snd (getWordDefinition word apiKey net s)) = fallbackDefinitions s) \<and>
   (\<not> lookup_throws net \<and> fallbackDefinitions s word = None \<longrightarrow>
      (\<exists>parsed. try_block net = Inr parsed \<and>
         getWordDefinition word apiKey net s =
           (Inr parsed,
            s\<lparr>requests := requests s @ [(word, apiKey)],
              fallbackDefinitions := (fallbackDefinitions s)(word \<mapsto> parsed)\<rparr>))) \<and>
   field unavailable (ascii ''reading'') = Some (JStr (ascii ''?'')) \<and>
   field unavailable (ascii ''meaning'') = Some (JStr (ascii ''Definition unavailable''))"
proof -
  have a: "lookup_throws net \<and> fallbackDefinitions s word = None \<longrightarrow>
      getWordDefinition word apiKey net s =
        (Inr unavailable, s\<lparr>requests := requests s @ [(word, apiKey)]\<rparr>) \<and>
      fallbackDefinitions (snd (getWordDefinition word apiKey net s)) = fallbackDefinitions s"
    using getWordDefinition_failure [of net s word apiKey] by simp
  have b: "\<not> lookup_throws net \<and> fallbackDefinitions s word = None \<longrightarrow>
      (\<exists>parsed. try_block net = Inr parsed \<and>
         getWordDefinition word apiKey net s =
           (Inr parsed,
            s\<lparr>requests := requests s @ [(word, apiKey)],
              fallbackDefinitions := (fallbackDefinitions s)(word \<mapsto> parsed)\<rparr>))"
    using getWordDefinition_parsed [of net s word apiKey] by blast
  from a b getWordDefinition_fulfils [of word apiKey net s] unavailable_fields
  show ?thesis by blast
qed

theorem failed_lookup_returns_unavailable_witness:
  "lookup_throws (FetchResolves too_many_requests) \<and>
   fallbackDefinitions fresh_app cat_sentence = None \<and>
   getWordDefinition cat_sentence (ascii ''key'') (FetchResolves too_many_requests) fresh_app =
     (Inr unavailable, fresh_app\<lparr>requests := [(cat_sentence, ascii ''key'')]\<rparr>) \<and>
   fallbackDefinitions
     (snd (getWordDefinition cat_sentence (ascii ''key'') (FetchResolves too_many_requests) fresh_app))
     cat_sentence = None \<and>
   \<not> lookup_throws (FetchResolves null_response) \<and>
   getWordDefinition cat_sentence (ascii ''key'') (FetchResolves null_response) fresh_app =
     (Inr JNull,
      fresh_app\<lparr>requests := [(cat_sentence, ascii ''key'')],
                fallbackDefinitions := (fallbackDefinitions fresh_app)(cat_sentence \<mapsto> JNull)\<rparr>)"
proof -
  have f: "lookup_throws (FetchResolves too_many_requests)"
    by (simp add: lookup_throws_def too_many_requests_def)
  have g: "\<not> lookup_throws (FetchResolves null_response)"
    by (simp add: lookup_throws_def null_response_def)
  have t: "try_block (FetchResolves null_response) = Inr JNull"
    by (simp add: try_block_def null_response_def)
  have n: "fallbackDefinitions fresh_app cat_sentence = None"
    by (simp add: fresh_app_def)
  have r: "requests fresh_app = []"
    by (simp add: fresh_app_def)
  from failed_lookup_returns_unavailable
         [of cat_sentence "ascii ''key''" "FetchResolves too_many_requests" fresh_app] f n r
  have one: "getWordDefinition cat_sentence (ascii ''key'') (FetchResolves too_many_requests) fresh_app =
       (Inr unavailable, fresh_app\<lparr>requests := [(cat_sentence, ascii ''key'')]\<rparr>) \<and>
     fallbackDefinitions
       (snd (getWordDefinition cat_sentence (ascii ''key'') (FetchResolves too_many_requests) fresh_app))
       cat_sentence = None"
    by simp
  from failed_lookup_returns_unavailable
         [of cat_sentence "ascii ''key''" "FetchResolves null_response" fresh_app] g n
  obtain parsed where "try_block (FetchResolves null_response) = Inr parsed"
    and "getWordDefinition cat_sentence (ascii ''key'') (FetchResolves null_response) fresh_app =
           (Inr parsed,
            fresh_app\<lparr>requests := requests fresh_app @ [(cat_sentence, ascii ''key'')],
                      fallbackDefinitions := (fallbackDefinitions fresh_app)(cat_sentence \<mapsto> parsed)\<rparr>)"
    by blast
  with t r
  have two: "getWordDefinition cat_sentence (ascii ''key'') (FetchResolves null_response) fresh_app =
     (Inr JNull,
      fresh_app\<lparr>requests := [(cat_sentence, ascii ''key'')],
                fallbackDefinitions := (fallbackDefinitions fresh_app)(cat_sentence \<mapsto> JNull)\<rparr>)"
    by simp
  from f n g one two show ?thesis by blast
qed

text \<open>
  C2, as the specification states it, fails: after a lookup that met a network
  error, the cache of a fresh application holds nothing under the word.
\<close>

theorem failed_lookup_cached_counterexample:
  "fallbackDefinitions (snd (getWordDefinition kyo (ascii ''key'') FetchRejects fresh_app)) kyo
     \<noteq> Some unavailable"
  by (simp add: getWordDefinition_def try_block_def fresh_app_def)

text \<open>
  C6. If the cache holds an entry for the word, \<open>getWordDefinition\<close> returns it and
  leaves the state as it was, whatever the service would answer: no request is
  made. And after a first call that missed the cache and whose lookup succeeded
  with a value, a second call for the same word, whatever the key and whatever the
  service would answer, returns that value and leaves the state as the first call
  left it (one request in all).
\<close>

theorem cache_hit_skips_lookup:
  "(fallbackDefinitions s word = Some cached \<longrightarrow>
      getWordDefinition word apiKey net s = (Inr cached, s)) \<and>
   (fallbackDefinitions s word = None \<and> try_block net = Inr parsed \<longrightarrow>
      (case getWordDefinition word apiKey net s of
         (first, s1) \<Rightarrow>
           first = Inr parsed \<and>
           requests s1 = requests s @ [(word, apiKey)] \<and>
           getWordDefinition word apiKey2 net2 s1 = (Inr parsed, s1)))"
  by (simp add: getWordDefinition_def)

theorem cache_hit_skips_lookup_witness:
  "(case getWordDefinition [0x732B] (ascii ''key'') (FetchResolves cat_response) fresh_app of
      (first, s1) \<Rightarrow>
        first = Inr cat_definition \<and>
        requests s1 = [([0x732B], ascii ''key'')] \<and>
        fallbackDefinitions s1 [0x732B] = Some cat_definition \<and>
        getWordDefinition [0x732B] (ascii ''key'') FetchRejects s1 = (Inr cat_definition, s1))"
proof -
  have n: "fallbackDefinitions fresh_app [0x732B] = None"
    by (simp add: fresh_app_def)
  have t: "try_block (FetchResolves cat_response) = Inr cat_definition"
    by (simp add: try_block_def cat_response_def)
  have r: "requests fresh_app = []"
    by (simp add: fresh_app_def)
  obtain first s1 where
    g: "getWordDefinition [0x732B] (ascii ''key'') (FetchResolves cat_response) fresh_app = (first, s1)"
    by (cases "getWordDefinition [0x732B] (ascii ''key'') (FetchResolves cat_response) fresh_app")
  from cache_hit_skips_lookup
         [of fresh_app "[0x732B]" cat_definition "ascii ''key''" "FetchResolves cat_response"
             cat_definition "ascii ''key''" FetchRejects] n t g r
  have a: "first = Inr cat_definition \<and> requests s1 = [([0x732B], ascii ''key'')] \<and>
           getWordDefinition [0x732B] (ascii ''key'') FetchRejects s1 = (Inr cat_definition, s1)"
    by simp
  from g n t have c: "fallbackDefinitions s1 [0x732B] = Some cat_definition"
    by (auto simp: getWordDefinition_def)
  from cache_hit_skips_lookup
         [of s1 "[0x732B]" cat_definition "ascii ''key''" FetchRejects] c
  have "getWordDefinition [0x732B] (ascii ''key'') FetchRejects s1 = (Inr cat_definition, s1)"
    by simp
  with a c g show ?thesis by simp
qed





section \<open>The placement\<close>

text \<open>
  C7, as the code has it. For whole numbers of pixels, where the arithmetic of the
  code is exact: the left edge is the centred one, moved left so that the right
  edge is at most the viewport width less the margin, then kept at the margin or
  more. So the left edge is always at the margin or more, and the right edge is at
  most the viewport width less the margin when the box and both margins fit in the
  viewport width. For a trigger point that is not below the viewport, the position
  is the three-tier fallback as the specification words it: above the trigger;
  below it when the top of the tier above is less than the margin; centred in the
  viewport, at the margin or more, when the bottom of the tier below passes the
  viewport height less the margin. For the viewport 400 by 800, the box 300 by 100
  and the trigger (390, 50), the tier is the one below and the position is left
  80, top 70.
\<close>

theorem place_popup_three_tier:
  assumes "whole_pixel x" and "whole_pixel y" and "whole_pixel w"
    and "whole_pixel h" and "whole_pixel vw" and "whole_pixel vh"
  shows "left (place_popup x y w h vw vh) = max margin (min (x - w / 2) (vw - margin - w)) \<and>
         left (place_popup x y w h vw vh) \<ge> margin \<and>
         (w + 2 * margin \<le> vw \<longrightarrow> left (place_popup x y w h vw vh) + w \<le> vw - margin) \<and>
         (y \<le> vh \<longrightarrow> place_popup x y w h vw vh = place_spec x y w h vw vh) \<and>
         fallback 50 100 800 = Below \<and>
         place_popup 390 50 300 100 400 800 = \<lparr>left = 80, top = 70\<rparr>"
  by (auto simp: place_popup_def place_spec_def fallback_def margin_def Let_def max_def min_def)

theorem place_popup_three_tier_witness:
  "whole_pixel 390 \<and> whole_pixel 50 \<and> whole_pixel 300 \<and> whole_pixel 100 \<and>
   whole_pixel 400 \<and> whole_pixel 800 \<and>
   (300::real) + 2 * margin \<le> 400 \<and> (50::real) \<le> 800 \<and>
   left (place_popup 390 50 300 100 400 800) + 300 \<le> 400 - margin \<and>
   top (place_popup 390 50 300 100 400 800) \<ge> margin \<and>
   place_popup 390 50 300 100 400 800 = place_spec 390 50 300 100 400 800"
proof -
  have px: "whole_pixel 390" "whole_pixel 50" "whole_pixel 300" "whole_pixel 100"
    "whole_pixel 400" "whole_pixel 800"
    by (simp_all add: whole_pixel_def)
  have fits: "(300::real) + 2 * margin \<le> 400"
    by (simp add: margin_def)
  have inside: "(50::real) \<le> 800"
    by simp
  note t = place_popup_three_tier [OF px]
  have right: "left (place_popup 390 50 300 100 400 800) + 300 \<le> 400 - margin"
    using t fits by blast
  have spec: "place_popup 390 50 300 100 400 800 = place_spec 390 50 300 100 400 800"
    using t inside by blast
  have "place_popup 390 50 300 100 400 800 = \<lparr>left = 80, top = 70\<rparr>"
    using t by blast
  then have above: "top (place_popup 390 50 300 100 400 800) \<ge> margin"
    by (simp add: margin_def)
  from px fits inside right above spec show ?thesis by blast
qed

text \<open>
  C7, as the specification states it, fails. A box 310 wide in a viewport 320 wide
  is placed with its left edge at the margin and its right edge at 330, beyond the
  viewport width less the margin. And for a trigger below the viewport, at height
  900 in a viewport 800 high, the code centres a box 100 high at top 350, where the
  three tiers as worded keep it above the trigger, at top 780.
\<close>

theorem place_popup_right_edge_counterexample:
  "left (place_popup 160 400 310 100 320 800) + 310 = 330 \<and>
   320 - margin < left (place_popup 160 400 310 100 320 800) + 310 \<and>
   top (place_popup 200 900 300 100 400 800) = 350 \<and>
   top (place_spec 200 900 300 100 400 800) = 780"
  by (simp add: place_popup_def place_spec_def fallback_def margin_def Let_def)

text \<open>
  C9. For every event whose trigger point has a non-negative vertical coordinate,
  every content size and every viewport, the position computed by
  \<open>positionPopup\<close> has its left and its top at 20 or more, also when the box is
  wider or taller than the viewport.
\<close>

theorem positionPopup_keeps_margin:
  assumes "snd (touch_point event scrollX scrollY) \<ge> 0"
  shows "left (positionPopup event scrollX scrollY w h vw vh) \<ge> 20 \<and>
         top (positionPopup event scrollX scrollY w h vw vh) \<ge> 20"
  using assms
  by (cases "touch_point event scrollX scrollY")
     (simp add: positionPopup_def place_popup_def Let_def)

theorem positionPopup_keeps_margin_witness:
  "snd (touch_point (TouchEnd 10 1200) 0 1200) \<ge> 0 \<and>
   positionPopup (TouchEnd 10 1200) 0 1200 500 900 400 800 = \<lparr>left = 20, top = 20\<rparr> \<and>
   left (positionPopup (TouchEnd 10 1200) 0 1200 500 900 400 800) \<ge> 20 \<and>
   top (positionPopup (TouchEnd 10 1200) 0 1200 500 900 400 800) \<ge> 20"
proof -
  have h: "snd (touch_point (TouchEnd 10 1200) 0 1200) \<ge> 0" by simp
  have e: "positionPopup (TouchEnd 10 1200) 0 1200 500 900 400 800 = \<lparr>left = 20, top = 20\<rparr>"
    by (simp add: positionPopup_def place_popup_def Let_def)
  from positionPopup_keeps_margin [OF h, of 500 900 400 800] h e show ?thesis by simp
qed

end
